theory Spec2Isabelle
  imports Complex_Main "HOL-Library.Word"
begin

section \<open>The declarations of network/CCDownloader.h\<close>

text \<open>
  The header declares the class \<open>cocos2d::network::Downloader\<close>: its error codes, the
  \<open>Error\<close> and \<open>StreamData\<close> structures, the three callback types, the inline accessors
  of the callback slots and the signatures of the download operations.
\<close>

subsection \<open>Error codes and the error structure\<close>

text \<open>\<open>enum class ErrorCode\<close>, the enumerators in the order of their declaration.\<close>

datatype ErrorCode =
    CREATE_FILE
  | NETWORK
  | NO_NEW_VERSION
  | UNCOMPRESS
  | CURL_UNINIT
  | CURL_MULTI_ERROR
  | CURL_EASY_ERROR
  | INVALID_URL
  | INVALID_STORAGE_PATH
  | PREPARE_HEADER_ERROR

text \<open>
  The enumerators carry no initialisers, so C++ numbers them from zero in the order of
  declaration.
\<close>

fun ErrorCode_value :: "ErrorCode \<Rightarrow> nat" where
  "ErrorCode_value CREATE_FILE = 0"
| "ErrorCode_value NETWORK = 1"
| "ErrorCode_value NO_NEW_VERSION = 2"
| "ErrorCode_value UNCOMPRESS = 3"
| "ErrorCode_value CURL_UNINIT = 4"
| "ErrorCode_value CURL_MULTI_ERROR = 5"
| "ErrorCode_value CURL_EASY_ERROR = 6"
| "ErrorCode_value INVALID_URL = 7"
| "ErrorCode_value INVALID_STORAGE_PATH = 8"
| "ErrorCode_value PREPARE_HEADER_ERROR = 9"

definition ErrorCode_all :: "ErrorCode list" where
  "ErrorCode_all =
     [CREATE_FILE, NETWORK, NO_NEW_VERSION, UNCOMPRESS, CURL_UNINIT, CURL_MULTI_ERROR,
      CURL_EASY_ERROR, INVALID_URL, INVALID_STORAGE_PATH, PREPARE_HEADER_ERROR]"

text \<open>
  \<open>struct Error\<close>. The two curl codes are C \<open>int\<close>s; the header does no arithmetic on
  them, so they are kept as integers.
\<close>

record Error =
  code :: ErrorCode
  curlm_code :: int
  curle_code :: int
  message :: string
  customId :: string
  url :: string

subsection \<open>Streaming data\<close>

type_synonym byte = "8 word"

text \<open>
  \<open>struct StreamData\<close>: two \<open>long\<close> fields and the pointer to the caller's buffer,
  modelled as the byte region it points to. The fields are kept as integers: the header
  does no arithmetic on them, and the write callback below only moves \<open>offset\<close> between
  zero and \<open>total\<close>, where a \<open>long\<close> does not wrap.
\<close>

record StreamData =
  offset :: int
  total :: int
  buffer :: "byte list"

subsection \<open>Callback types and the callback slots\<close>

text \<open>
  A callback type is a \<open>std::function\<close> returning \<open>void\<close>: a value of it is empty
  (\<open>None\<close>), as a default-constructed one is, or holds a callable, and all a callable can
  do is act on the caller's state \<open>'w\<close>. The \<open>double\<close> arguments of the progress callback
  are modelled as reals.
\<close>

type_synonym 'w ErrorCallback = "(Error \<Rightarrow> 'w \<Rightarrow> 'w) option"
type_synonym 'w ProgressCallback = "(real \<Rightarrow> real \<Rightarrow> string \<Rightarrow> string \<Rightarrow> 'w \<Rightarrow> 'w) option"
type_synonym 'w SuccessCallback = "(string \<Rightarrow> string \<Rightarrow> string \<Rightarrow> 'w \<Rightarrow> 'w) option"

text \<open>
  The private members of \<open>Downloader\<close> (their leading underscore dropped). The two
  collaborator pointers \<open>_fileUtils\<close> and \<open>_downloaderImpl\<close> are kept as addresses.
\<close>

record 'w Downloader =
  onError :: "'w ErrorCallback"
  onProgress :: "'w ProgressCallback"
  onSuccess :: "'w SuccessCallback"
  connectionTimeout :: int
  fileUtils :: nat
  supportResuming :: bool
  downloaderImpl :: nat

definition setErrorCallback :: "'w ErrorCallback \<Rightarrow> 'w Downloader \<Rightarrow> 'w Downloader" where
  "setErrorCallback callback d = d\<lparr>onError := callback\<rparr>"

definition setProgressCallback :: "'w ProgressCallback \<Rightarrow> 'w Downloader \<Rightarrow> 'w Downloader" where
  "setProgressCallback callback d = d\<lparr>onProgress := callback\<rparr>"

definition setSuccessCallback :: "'w SuccessCallback \<Rightarrow> 'w Downloader \<Rightarrow> 'w Downloader" where
  "setSuccessCallback callback d = d\<lparr>onSuccess := callback\<rparr>"

definition getErrorCallback :: "'w Downloader \<Rightarrow> 'w ErrorCallback" where
  "getErrorCallback d = onError d"

definition getProgressCallback :: "'w Downloader \<Rightarrow> 'w ProgressCallback" where
  "getProgressCallback d = onProgress d"

definition getSuccessCallback :: "'w Downloader \<Rightarrow> 'w SuccessCallback" where
  "getSuccessCallback d = onSuccess d"

section \<open>The transfer logic\<close>

text \<open>
  The header declares the operations of this section and gives their signatures; it does
  not contain their bodies, nor the collaborator header \<open>network/CCDownloaderImpl.h\<close>
  that declares \<open>DownloadUnit\<close>, \<open>DownloadUnits\<close> and \<open>HeaderInfo\<close>. Their behaviour is
  taken from the specification, sections 3 to 7, and each definition says which sentences
  it follows. The transfer engine is an external collaborator: what it does during one
  transfer is an argument of the model.
\<close>

subsection \<open>Notifications and the engine\<close>

text \<open>
  One invocation of a callback slot, with its arguments:
  \<open>ErrorCallback(error)\<close>, \<open>ProgressCallback(totalBytes, downloadedBytes, url, customId)\<close>
  and \<open>SuccessCallback(url, storagePathOrEmpty, customId)\<close>.
\<close>

datatype Notification =
    OnError Error
  | OnProgress real real string string
  | OnSuccess string string string

fun isError :: "Notification \<Rightarrow> bool" where
  "isError (OnError e) = True"
| "isError (OnProgress t n u c) = False"
| "isError (OnSuccess u p c) = False"

fun isSuccess :: "Notification \<Rightarrow> bool" where
  "isSuccess (OnError e) = False"
| "isSuccess (OnProgress t n u c) = False"
| "isSuccess (OnSuccess u p c) = True"

fun errorsOf :: "Notification list \<Rightarrow> Error list" where
  "errorsOf [] = []"
| "errorsOf (OnError e # ns) = e # errorsOf ns"
| "errorsOf (OnProgress t n u c # ns) = errorsOf ns"
| "errorsOf (OnSuccess u p c # ns) = errorsOf ns"



text \<open>
  Modelled from the spec: the transfer engine (section 6, "start transfer(url, range-from,
  sink, on-chunk, on-progress, on-done)" and "probe headers(url)"). A request the
  downloader makes of the engine is an \<open>EngineCall\<close>. What the engine does during one
  transfer is a \<open>Transfer\<close>: the total it reports upfront when it knows one, the chunks
  and progress ticks it hands to the write and progress callbacks, in their order, and
  how the transfer ends. A failure is \<open>Unclassified\<close> or one of the classified faults of
  section 7, with the engine's own code where it has one.
\<close>

datatype EngineCall = ProbeHeaders string | StartTransfer string nat

datatype EngineFault = Unclassified | Uninitialized | MultiFault int | TransportFault int

datatype EngineResult = EngineDone | EngineFailed EngineFault string

datatype EngineEvent = Chunk "byte list" | Tick real real

record Transfer =
  expectedTotal :: "nat option"
  reported :: "EngineEvent list"
  finished :: EngineResult

fun streamBytes :: "EngineEvent list \<Rightarrow> nat" where
  "streamBytes [] = 0"
| "streamBytes (Chunk bs # es) = length bs + streamBytes es"
| "streamBytes (Tick t n # es) = streamBytes es"

fun streamPayload :: "EngineEvent list \<Rightarrow> byte list" where
  "streamPayload [] = []"
| "streamPayload (Chunk bs # es) = bs @ streamPayload es"
| "streamPayload (Tick t n # es) = streamPayload es"

text \<open>
  Modelled from the spec: \<open>DownloadUnit\<close> of \<open>network/CCDownloaderImpl.h\<close>, the
  TransferUnit of section 3, \<open>{sourceUrl, storagePath | empty, customId}\<close>.
\<close>

record DownloadUnit =
  sourceUrl :: string
  storagePath :: string
  unitCustomId :: string

text \<open>
  What one download operation does: the requests it makes of the engine, the callback
  invocations it causes, in their order, and the target (buffer or file system) it leaves.
\<close>

record 'a Outcome =
  engineCalls :: "EngineCall list"
  notifications :: "Notification list"
  target :: 'a

subsection \<open>Reporting\<close>

text \<open>
  Modelled from the spec: the bodies of the three \<open>notifyError\<close> overloads (section 4.6:
  every failure is normalised into one \<open>Error\<close> record and dispatched through the error
  callback once). The parameters and their defaults are those of the header; none of the
  overloads has a url parameter, so the \<open>url\<close> field stays the empty string. The overload
  taking a \<open>curlm_code\<close> reports the engine's multi-transfer error, the one taking a
  \<open>curle_code\<close> its transfer error.
\<close>

definition notifyError :: "ErrorCode \<Rightarrow> string \<Rightarrow> string \<Rightarrow> int \<Rightarrow> int \<Rightarrow> Notification list" where
  "notifyError c msg cid curle curlm =
     [OnError \<lparr>code = c, curlm_code = curlm, curle_code = curle, message = msg,
        customId = cid, url = []\<rparr>]"

definition notifyError_curlm :: "string \<Rightarrow> int \<Rightarrow> string \<Rightarrow> Notification list" where
  "notifyError_curlm msg curlm cid = notifyError CURL_MULTI_ERROR msg cid 0 curlm"

definition notifyError_curle :: "string \<Rightarrow> string \<Rightarrow> int \<Rightarrow> Notification list" where
  "notifyError_curle msg cid curle = notifyError CURL_EASY_ERROR msg cid curle 0"

text \<open>
  Modelled from the spec: the bodies of \<open>reportDownloadFinished\<close>,
  \<open>reportProgressInProgress\<close> and \<open>downloadProgressFunc\<close> (sections 2 and 4.2: the engine's
  progress ticks are routed to the progress callback, completion fires the success
  callback with url, storage path or empty, and customId). The \<open>int\<close> that
  \<open>downloadProgressFunc\<close> returns to the engine is left out.
\<close>

definition reportDownloadFinished :: "string \<Rightarrow> string \<Rightarrow> string \<Rightarrow> Notification list" where
  "reportDownloadFinished u path cid = [OnSuccess u path cid]"

definition reportProgressInProgress :: "real \<Rightarrow> real \<Rightarrow> DownloadUnit \<Rightarrow> Notification list" where
  "reportProgressInProgress totalToDownload nowDownloaded downloadUnit =
     [OnProgress totalToDownload nowDownloaded (sourceUrl downloadUnit)
        (unitCustomId downloadUnit)]"

definition downloadProgressFunc :: "DownloadUnit \<Rightarrow> real \<Rightarrow> real \<Rightarrow> Notification list" where
  "downloadProgressFunc userdata totalToDownload nowDownloaded =
     reportProgressInProgress totalToDownload nowDownloaded userdata"

text \<open>
  Modelled from the spec: how a transfer that wrote all its chunks ends (section 4.2).
  "On stream completion with offset == total expected bytes (or engine-reported completion
  if total is unknown upfront), fires SuccessCallback"; "on any engine failure, fires
  ErrorCallback with Network (or the more specific code if the failure is classifiable)
  populated with engine major/minor codes when available". A stream the engine completes
  short of, or beyond, the total it announced is a malformed response and, as section
  4.2 says of those, a Network failure.
\<close>

fun engineFailure :: "EngineFault \<Rightarrow> string \<Rightarrow> string \<Rightarrow> Notification list" where
  "engineFailure Unclassified msg cid = notifyError NETWORK msg cid 0 0"
| "engineFailure Uninitialized msg cid = notifyError CURL_UNINIT msg cid 0 0"
| "engineFailure (MultiFault curlm) msg cid = notifyError_curlm msg curlm cid"
| "engineFailure (TransportFault curle) msg cid = notifyError_curle msg cid curle"

definition transferCompletion :: "Transfer \<Rightarrow> int \<Rightarrow> string \<Rightarrow> string \<Rightarrow> string \<Rightarrow> Notification list" where
  "transferCompletion tr reached u path cid =
     (case finished tr of
        EngineFailed fault msg \<Rightarrow> engineFailure fault msg cid
      | EngineDone \<Rightarrow>
          (case expectedTotal tr of
             None \<Rightarrow> reportDownloadFinished u path cid
           | Some t \<Rightarrow>
               if reached = int t then reportDownloadFinished u path cid
               else notifyError NETWORK [] cid 0 0))"

subsection \<open>Download to a buffer\<close>

text \<open>
  Modelled from the spec: the body of \<open>bufferWriteFunc\<close> (sections 3 and 4.2). The chunk
  stands for the \<open>size * nmemb\<close> bytes at \<open>ptr\<close>, the stream data for \<open>userdata\<close>, whose
  \<open>total\<close> is the capacity \<open>size\<close> of the caller's buffer. The callback copies the chunk
  into the buffer at \<open>offset\<close> and advances \<open>offset\<close>; a chunk that would write past the
  capacity is not copied, it is the fatal Network-class error of that unit.
\<close>

definition bufferWriteFunc :: "byte list \<Rightarrow> StreamData \<Rightarrow> ErrorCode + StreamData" where
  "bufferWriteFunc chunk userdata =
     (if total userdata - offset userdata < int (length chunk) then Inl NETWORK
      else Inr (userdata
        \<lparr>offset := offset userdata + int (length chunk),
         buffer := take (nat (offset userdata)) (buffer userdata) @ chunk
           @ drop (nat (offset userdata) + length chunk) (buffer userdata)\<rparr>))"

text \<open>
  Modelled from the spec: the engine running one transfer into a buffer (section 2: it
  invokes the "write/progress callbacks as bytes arrive"). It hands its chunks and ticks
  to the two callbacks in their order; the first chunk the write callback refuses ends
  the transfer.
\<close>

fun streamToBuffer ::
  "DownloadUnit \<Rightarrow> EngineEvent list \<Rightarrow> StreamData
     \<Rightarrow> Notification list \<times> ErrorCode option \<times> StreamData" where
  "streamToBuffer u [] sd = ([], None, sd)"
| "streamToBuffer u (Tick t n # es) sd =
     (case streamToBuffer u es sd of
        (ns, r) \<Rightarrow> (downloadProgressFunc u t n @ ns, r))"
| "streamToBuffer u (Chunk bs # es) sd =
     (case bufferWriteFunc bs sd of
        Inl e \<Rightarrow> ([], Some e, sd)
      | Inr sd' \<Rightarrow> streamToBuffer u es sd')"

text \<open>
  Modelled from the spec: the body of \<open>downloadToBuffer\<close>, the logic shared by
  \<open>downloadToBufferAsync\<close> and \<open>downloadToBufferSync\<close> (section 4.2): it "validates url is
  non-empty and syntactically well-formed (fails InvalidUrl otherwise) and that size is
  positive (fails InvalidStoragePath-equivalent precondition otherwise)", in this order,
  then "builds one TransferUnit targeting the buffer, dispatches to the TransferEngine".
  The specification does not define well-formedness: it is the argument \<open>wellFormed\<close>.
  The parameter \<open>size\<close> of the header is \<open>len\<close> here.
\<close>

definition downloadToBuffer ::
  "(string \<Rightarrow> bool) \<Rightarrow> Transfer \<Rightarrow> string \<Rightarrow> string \<Rightarrow> byte list \<Rightarrow> int
     \<Rightarrow> byte list Outcome" where
  "downloadToBuffer wellFormed tr srcUrl cid buf len =
     (if srcUrl = [] then
        \<lparr>engineCalls = [], notifications = notifyError INVALID_URL [] cid 0 0, target = buf\<rparr>
      else if \<not> wellFormed srcUrl then
        \<lparr>engineCalls = [], notifications = notifyError INVALID_URL [] cid 0 0, target = buf\<rparr>
      else if len \<le> 0 then
        \<lparr>engineCalls = [], notifications = notifyError INVALID_STORAGE_PATH [] cid 0 0,
         target = buf\<rparr>
      else
        (case streamToBuffer \<lparr>sourceUrl = srcUrl, storagePath = [], unitCustomId = cid\<rparr>
                (reported tr) \<lparr>offset = 0, total = len, buffer = buf\<rparr> of
           (ns, err, sd) \<Rightarrow>
             \<lparr>engineCalls = [StartTransfer srcUrl 0],
              notifications = ns @
                (case err of
                   Some e \<Rightarrow> notifyError e [] cid 0 0
                 | None \<Rightarrow> transferCompletion tr (offset sd) srcUrl [] cid),
              target = buffer sd\<rparr>))"

text \<open>
  A stream data is well formed for its buffer when the offset lies between zero and the
  capacity and the capacity is within the caller's region.
\<close>

definition wfStream :: "StreamData \<Rightarrow> bool" where
  "wfStream sd =
     (0 \<le> offset sd \<and> offset sd \<le> total sd \<and> total sd \<le> int (length (buffer sd)))"

subsection \<open>Download to a file\<close>

text \<open>
  Modelled from the spec: the filesystem capability of section 6 ("open for
  append-or-create", "current length") and the storage-path check of section 4.3
  ("directory exists or creatable"): the files with their contents, the paths that are
  writable and the paths that can be opened.
\<close>

record FileSystem =
  files :: "string \<Rightarrow> byte list option"
  writable :: "string \<Rightarrow> bool"
  openable :: "string \<Rightarrow> bool"

text \<open>
  Modelled from the spec: \<open>HeaderInfo\<close> of \<open>network/CCDownloaderImpl.h\<close> (section 3), of
  which the core interprets "supports resuming" and "content length", and the body of
  \<open>getHeader\<close> (section 4.5: it "returns HeaderInfo or fails PrepareHeaderError"). The
  engine's answer to a header probe is the argument \<open>probe\<close>.
\<close>

record HeaderInfo =
  contentLength :: nat
  supportsResuming :: bool

definition getHeader :: "(string \<Rightarrow> HeaderInfo option) \<Rightarrow> string \<Rightarrow> ErrorCode + HeaderInfo" where
  "getHeader probe srcUrl =
     (case probe srcUrl of None \<Rightarrow> Inl PREPARE_HEADER_ERROR | Some h \<Rightarrow> Inr h)"

text \<open>
  Modelled from the spec: the resume decision of section 4.3. The header probe determines
  "whether the remote resource supports range resumption and whether its reported size is
  consistent with the partial file"; a partial file is consistent with a reported size it
  does not exceed. A probe that fails determines neither.
\<close>

definition resumable :: "ErrorCode + HeaderInfo \<Rightarrow> nat \<Rightarrow> bool" where
  "resumable header partialLength =
     (case header of
        Inl e \<Rightarrow> False
      | Inr h \<Rightarrow> supportsResuming h \<and> partialLength \<le> contentLength h)"

text \<open>
  Modelled from the spec: the body of \<open>fileWriteFunc\<close> and the engine running one
  transfer into a file (section 4.3: the destination is opened "for append-or-create"
  and the engine's chunks are streamed to it).
\<close>

definition fileWriteFunc :: "byte list \<Rightarrow> byte list \<Rightarrow> byte list" where
  "fileWriteFunc chunk content = content @ chunk"

fun streamToFile ::
  "DownloadUnit \<Rightarrow> EngineEvent list \<Rightarrow> byte list \<Rightarrow> Notification list \<times> byte list" where
  "streamToFile u [] content = ([], content)"
| "streamToFile u (Tick t n # es) content =
     (case streamToFile u es content of
        (ns, content') \<Rightarrow> (downloadProgressFunc u t n @ ns, content'))"
| "streamToFile u (Chunk bs # es) content = streamToFile u es (fileWriteFunc bs content)"

text \<open>
  Modelled from the spec: the body of \<open>downloadToFP\<close>, the logic shared by \<open>downloadAsync\<close>
  and \<open>downloadSync\<close> (section 4.3). It "validates storagePath is writable; fails
  InvalidStoragePath otherwise. If resume is enabled and a partial file already exists at
  storagePath, issues a header probe first [...]; if resumable, the transfer resumes from
  the partial file's current length, otherwise it restarts from zero (truncating any
  stale partial file)". A destination that cannot be opened is the CreateFile error. The
  transfer ends as in section 4.2, the offset being the length of the file.
\<close>

definition downloadToFP ::
  "'w Downloader \<Rightarrow> FileSystem \<Rightarrow> (string \<Rightarrow> HeaderInfo option) \<Rightarrow> Transfer
     \<Rightarrow> string \<Rightarrow> string \<Rightarrow> string \<Rightarrow> FileSystem Outcome" where
  "downloadToFP d fs probe tr srcUrl cid path =
     (if \<not> writable fs path then
        \<lparr>engineCalls = [], notifications = notifyError INVALID_STORAGE_PATH [] cid 0 0,
         target = fs\<rparr>
      else
        (case files fs path of
           None \<Rightarrow>
             if \<not> openable fs path then
               \<lparr>engineCalls = [], notifications = notifyError CREATE_FILE [] cid 0 0,
                target = fs\<rparr>
             else
               (case streamToFile \<lparr>sourceUrl = srcUrl, storagePath = path, unitCustomId = cid\<rparr>
                       (reported tr) [] of
                  (ns, content) \<Rightarrow>
                    \<lparr>engineCalls = [StartTransfer srcUrl 0],
                     notifications =
                       ns @ transferCompletion tr (int (length content)) srcUrl path cid,
                     target = fs\<lparr>files := (files fs)(path := Some content)\<rparr>\<rparr>)
         | Some partial \<Rightarrow>
             (let probing = supportResuming d;
                  start = (if probing then
                             if resumable (getHeader probe srcUrl) (length partial)
                             then length partial else 0
                           else 0);
                  calls = (if probing then [ProbeHeaders srcUrl] else [])
              in if \<not> openable fs path then
                   \<lparr>engineCalls = calls, notifications = notifyError CREATE_FILE [] cid 0 0,
                    target = fs\<rparr>
                 else
                   (case streamToFile
                           \<lparr>sourceUrl = srcUrl, storagePath = path, unitCustomId = cid\<rparr>
                           (reported tr) (take start partial) of
                      (ns, content) \<Rightarrow>
                        \<lparr>engineCalls = calls @ [StartTransfer srcUrl start],
                         notifications =
                           ns @ transferCompletion tr (int (length content)) srcUrl path cid,
                         target = fs\<lparr>files := (files fs)(path := Some content)\<rparr>\<rparr>))))"

subsection \<open>Batch download\<close>

text \<open>
  Modelled from the spec: the body of \<open>groupBatchDownload\<close> and the batch-level
  notification of \<open>batchDownloadAsync\<close> and \<open>batchDownloadSync\<close> (section 4.4). Every
  member follows the file-download logic and its notifications fire with its own
  customId; the members run concurrently while the callbacks are delivered one at a time
  (section 5), so the batch is given as its members, each with what the engine does for
  it, in the order in which they reach their terminal state. The coordinator keeps the
  first error it meets. "Once every member has reached a terminal state, a single
  batch-level notification fires using batchId as its customId: success if all members
  succeeded, otherwise error carrying the first encountered per-member error". A
  notification is tagged with the member it belongs to, by position in that order, or
  as the batch's own.
\<close>

datatype Origin = Member nat | BatchLevel

fun memberError :: "Notification list \<Rightarrow> Error option" where
  "memberError [] = None"
| "memberError (OnError e # ns) = Some e"
| "memberError (OnProgress t n u c # ns) = memberError ns"
| "memberError (OnSuccess u p c # ns) = memberError ns"

fun batchLoop ::
  "'w Downloader \<Rightarrow> FileSystem \<Rightarrow> (string \<Rightarrow> HeaderInfo option) \<Rightarrow> nat \<Rightarrow> Error option
     \<Rightarrow> (DownloadUnit \<times> Transfer) list
     \<Rightarrow> (Origin \<times> Notification) list \<times> Error option \<times> FileSystem" where
  "batchLoop d fs probe k batchError [] = ([], batchError, fs)"
| "batchLoop d fs probe k batchError ((u, tr) # units) =
     (case downloadToFP d fs probe tr (sourceUrl u) (unitCustomId u) (storagePath u) of
        r \<Rightarrow>
          (case batchLoop d (target r) probe (Suc k)
                  (case batchError of
                     None \<Rightarrow> memberError (notifications r)
                   | Some e \<Rightarrow> Some e)
                  units of
             (ns, batchError', fs') \<Rightarrow>
               (map (Pair (Member k)) (notifications r) @ ns, batchError', fs')))"

definition groupBatchDownload ::
  "'w Downloader \<Rightarrow> FileSystem \<Rightarrow> (string \<Rightarrow> HeaderInfo option)
     \<Rightarrow> (DownloadUnit \<times> Transfer) list
     \<Rightarrow> (Origin \<times> Notification) list \<times> Error option \<times> FileSystem" where
  "groupBatchDownload d fs probe units = batchLoop d fs probe 0 None units"

definition batchNotification :: "Error option \<Rightarrow> string \<Rightarrow> Notification list" where
  "batchNotification batchError batchId =
     (case batchError of
        None \<Rightarrow> reportDownloadFinished [] [] batchId
      | Some e \<Rightarrow> [OnError (e\<lparr>customId := batchId\<rparr>)])"

definition batchDownload ::
  "'w Downloader \<Rightarrow> FileSystem \<Rightarrow> (string \<Rightarrow> HeaderInfo option)
     \<Rightarrow> (DownloadUnit \<times> Transfer) list \<Rightarrow> string
     \<Rightarrow> (Origin \<times> Notification) list \<times> FileSystem" where
  "batchDownload d fs probe units batchId =
     (case groupBatchDownload d fs probe units of
        (ns, batchError, fs') \<Rightarrow>
          (ns @ map (Pair BatchLevel) (batchNotification batchError batchId), fs'))"





subsection \<open>The synchronous operations\<close>




section \<open>Properties of the declarations\<close>

text \<open>
  C9. Registering a callback replaces the one registered before: after two registrations
  in the same slot the getter returns the second callback, the downloader is the one a
  single registration of the second callback gives, and a setter leaves the two other
  slots and the configuration fields as they were.
\<close>

theorem callback_registration_replaces:
  "getErrorCallback (setErrorCallback g (setErrorCallback f d)) = g
   \<and> getProgressCallback (setProgressCallback pg (setProgressCallback pf d)) = pg
   \<and> getSuccessCallback (setSuccessCallback sg (setSuccessCallback sf d)) = sg
   \<and> setErrorCallback g (setErrorCallback f d) = setErrorCallback g d
   \<and> setProgressCallback pg (setProgressCallback pf d) = setProgressCallback pg d
   \<and> setSuccessCallback sg (setSuccessCallback sf d) = setSuccessCallback sg d
   \<and> setErrorCallback g d = d\<lparr>onError := g\<rparr>
   \<and> setProgressCallback pg d = d\<lparr>onProgress := pg\<rparr>
   \<and> setSuccessCallback sg d = d\<lparr>onSuccess := sg\<rparr>
   \<and> getProgressCallback (setErrorCallback g d) = getProgressCallback d
   \<and> getSuccessCallback (setErrorCallback g d) = getSuccessCallback d
   \<and> getErrorCallback (setProgressCallback pg d) = getErrorCallback d
   \<and> getSuccessCallback (setProgressCallback pg d) = getSuccessCallback d
   \<and> getErrorCallback (setSuccessCallback sg d) = getErrorCallback d
   \<and> getProgressCallback (setSuccessCallback sg d) = getProgressCallback d"
  by (simp add: setErrorCallback_def setProgressCallback_def setSuccessCallback_def
      getErrorCallback_def getProgressCallback_def getSuccessCallback_def)

lemma ErrorCode_all_complete: "c \<in> set ErrorCode_all"
  by (cases c) (simp_all add: ErrorCode_all_def)

text \<open>
  C10. The error codes are exactly the ten enumerators of the header, pairwise distinct
  as values and as the integers C++ gives them, and the code of every error structure is
  one of them.
\<close>

theorem ErrorCode_closed_enumeration:
  "length ErrorCode_all = 10
   \<and> distinct ErrorCode_all
   \<and> set ErrorCode_all = UNIV
   \<and> card (UNIV :: ErrorCode set) = 10
   \<and> map ErrorCode_value ErrorCode_all = [0, 1, 2, 3, 4, 5, 6, 7, 8, 9]
   \<and> (\<forall>e :: Error. code e \<in> set ErrorCode_all)"
proof -
  have len: "length ErrorCode_all = 10"
    by (simp add: ErrorCode_all_def)
  have dist: "distinct ErrorCode_all"
    by (simp add: ErrorCode_all_def)
  have univ: "set ErrorCode_all = UNIV"
    using ErrorCode_all_complete by blast
  have "card (set ErrorCode_all) = length ErrorCode_all"
    using dist by (rule distinct_card)
  then have card: "card (UNIV :: ErrorCode set) = 10"
    using len univ by simp
  have vals: "map ErrorCode_value ErrorCode_all = [0, 1, 2, 3, 4, 5, 6, 7, 8, 9]"
    by (simp add: ErrorCode_all_def)
  show ?thesis
    using len dist univ card vals ErrorCode_all_complete by blast
qed

section \<open>The buffer target\<close>

lemma bufferWriteFunc_Inl:
  "bufferWriteFunc chunk sd = Inl e \<Longrightarrow> e = NETWORK \<and> total sd - offset sd < int (length chunk)"
  by (auto simp: bufferWriteFunc_def split: if_splits)

lemma bufferWriteFunc_Inr:
  assumes "bufferWriteFunc chunk sd = Inr sd'" and "wfStream sd"
  shows "int (length chunk) \<le> total sd - offset sd"
    and "offset sd' = offset sd + int (length chunk)"
    and "total sd' = total sd"
    and "length (buffer sd') = length (buffer sd)"
    and "take (nat (offset sd)) (buffer sd') = take (nat (offset sd)) (buffer sd)"
    and "take (length chunk) (drop (nat (offset sd)) (buffer sd')) = chunk"
    and "drop (nat (offset sd')) (buffer sd') = drop (nat (offset sd')) (buffer sd)"
    and "wfStream sd'"
  using assms
  by (auto simp: bufferWriteFunc_def wfStream_def nat_add_distrib split: if_splits)

lemma bufferWriteFunc_beyond:
  assumes "bufferWriteFunc chunk sd = Inr sd'" and "wfStream sd"
  shows "drop (nat (total sd)) (buffer sd') = drop (nat (total sd)) (buffer sd)"
proof -
  let ?o = "nat (offset sd)" and ?t = "nat (total sd)" and ?n = "length chunk"
  from assms have le: "?o + ?n \<le> ?t" "?t \<le> length (buffer sd)"
    by (auto simp: bufferWriteFunc_def wfStream_def split: if_splits)
  from assms have b: "buffer sd' = take ?o (buffer sd) @ chunk @ drop (?o + ?n) (buffer sd)"
    by (auto simp: bufferWriteFunc_def split: if_splits)
  from le have "drop ?t (take ?o (buffer sd) @ chunk @ drop (?o + ?n) (buffer sd))
      = drop (?t - ?o - ?n) (drop (?o + ?n) (buffer sd))"
    by simp
  also from le have "\<dots> = drop ?t (buffer sd)"
    by simp
  finally show ?thesis using b by simp
qed

lemma streamToBuffer_inv:
  "streamToBuffer u es sd = (ns, err, sd') \<Longrightarrow> wfStream sd \<Longrightarrow>
     wfStream sd' \<and> total sd' = total sd \<and> length (buffer sd') = length (buffer sd)
     \<and> offset sd \<le> offset sd'
     \<and> drop (nat (total sd)) (buffer sd') = drop (nat (total sd)) (buffer sd)"
proof (induction u es sd arbitrary: ns err sd' rule: streamToBuffer.induct)
  case (1 u sd)
  then show ?case by simp
next
  case (2 u t n es sd)
  then show ?case by (auto split: prod.splits)
next
  case (3 u bs es sd)
  show ?case
  proof (cases "bufferWriteFunc bs sd")
    case (Inl e)
    with 3 show ?thesis by simp
  next
    case (Inr sd1)
    note w = bufferWriteFunc_Inr[OF Inr \<open>wfStream sd\<close>]
      and b = bufferWriteFunc_beyond[OF Inr \<open>wfStream sd\<close>]
    from 3(2) Inr have run: "streamToBuffer u es sd1 = (ns, err, sd')" by simp
    from 3(1)[OF Inr run w(8)] w b show ?thesis by simp
  qed
qed

lemma streamToBuffer_overflow:
  "wfStream sd \<Longrightarrow> total sd - offset sd < int (streamBytes es) \<Longrightarrow>
     fst (snd (streamToBuffer u es sd)) = Some NETWORK"
proof (induction u es sd rule: streamToBuffer.induct)
  case (1 u sd)
  then show ?case by (simp add: wfStream_def)
next
  case (2 u t n es sd)
  then show ?case by (cases "streamToBuffer u es sd") auto
next
  case (3 u bs es sd)
  show ?case
  proof (cases "bufferWriteFunc bs sd")
    case (Inl e)
    then show ?thesis using bufferWriteFunc_Inl[OF Inl] by simp
  next
    case (Inr sd1)
    note w = bufferWriteFunc_Inr[OF Inr \<open>wfStream sd\<close>]
    from 3(3) w have "total sd1 - offset sd1 < int (streamBytes es)" by simp
    from 3(1)[OF Inr w(8) this] Inr show ?thesis by simp
  qed
qed



lemma streamToBuffer_progress:
  "streamToBuffer u es sd = (ns, r) \<Longrightarrow> filter isError ns = [] \<and> filter isSuccess ns = []"
proof (induction u es sd arbitrary: ns r rule: streamToBuffer.induct)
  case (1 u sd)
  then show ?case by simp
next
  case (2 u t n es sd)
  then show ?case
    by (cases "streamToBuffer u es sd")
      (auto simp: downloadProgressFunc_def reportProgressInProgress_def)
next
  case (3 u bs es sd)
  show ?case
  proof (cases "bufferWriteFunc bs sd")
    case (Inl e')
    with 3(2) show ?thesis by simp
  next
    case (Inr sd1)
    with 3(2) have "streamToBuffer u es sd1 = (ns, r)" by simp
    from 3(1)[OF Inr this] show ?thesis .
  qed
qed


lemma downloadToBuffer_region:
  assumes "srcUrl \<noteq> []" "wellFormed srcUrl" "0 < len" "len \<le> int (length buf)"
  shows "length (target (downloadToBuffer wellFormed tr srcUrl cid buf len)) = length buf"
    and "drop (nat len) (target (downloadToBuffer wellFormed tr srcUrl cid buf len)) = drop (nat len) buf"
proof -
  let ?u = "\<lparr>sourceUrl = srcUrl, storagePath = [], unitCustomId = cid\<rparr>"
  let ?sd = "\<lparr>offset = 0, total = len, buffer = buf\<rparr>"
  obtain ns err sd' where run: "streamToBuffer ?u (reported tr) ?sd = (ns, err, sd')"
    by (cases "streamToBuffer ?u (reported tr) ?sd") auto
  from assms have "wfStream ?sd" by (simp add: wfStream_def)
  from streamToBuffer_inv[OF run this]
  have "length (buffer sd') = length buf" "drop (nat len) (buffer sd') = drop (nat len) buf"
    by simp_all
  moreover from assms run have "target (downloadToBuffer wellFormed tr srcUrl cid buf len) = buffer sd'"
    by (simp add: downloadToBuffer_def)
  ultimately show "length (target (downloadToBuffer wellFormed tr srcUrl cid buf len)) = length buf"
    and "drop (nat len) (target (downloadToBuffer wellFormed tr srcUrl cid buf len)) = drop (nat len) buf"
    by simp_all
qed

lemma errorsOf_append: "errorsOf (xs @ ys) = errorsOf xs @ errorsOf ys"
  by (induction xs rule: errorsOf.induct) simp_all

lemma errorsOf_no_error: "filter isError ns = [] \<Longrightarrow> errorsOf ns = []"
  by (induction ns rule: errorsOf.induct) simp_all

lemma downloadToBuffer_overflow:
  assumes "srcUrl \<noteq> []" "wellFormed srcUrl" "0 < len" "len \<le> int (length buf)"
    and "len < int (streamBytes (reported tr))"
  shows "map code (errorsOf (notifications (downloadToBuffer wellFormed tr srcUrl cid buf len))) = [NETWORK]"
    and "filter isSuccess (notifications (downloadToBuffer wellFormed tr srcUrl cid buf len)) = []"
proof -
  let ?u = "\<lparr>sourceUrl = srcUrl, storagePath = [], unitCustomId = cid\<rparr>"
  let ?sd = "\<lparr>offset = 0, total = len, buffer = buf\<rparr>"
  obtain ns err sd' where run: "streamToBuffer ?u (reported tr) ?sd = (ns, err, sd')"
    by (cases "streamToBuffer ?u (reported tr) ?sd") auto
  from assms have "wfStream ?sd" by (simp add: wfStream_def)
  from streamToBuffer_overflow[OF this, of "reported tr" ?u] assms(5) run
  have err: "err = Some NETWORK" by simp
  from assms run err
  have n: "notifications (downloadToBuffer wellFormed tr srcUrl cid buf len)
      = ns @ notifyError NETWORK [] cid 0 0"
    by (simp add: downloadToBuffer_def)
  from streamToBuffer_progress[OF run]
  have p: "filter isError ns = []" "filter isSuccess ns = []" by simp_all
  show "map code (errorsOf (notifications (downloadToBuffer wellFormed tr srcUrl cid buf len))) = [NETWORK]"
    using n errorsOf_no_error[OF p(1)] by (simp add: errorsOf_append notifyError_def)
  show "filter isSuccess (notifications (downloadToBuffer wellFormed tr srcUrl cid buf len)) = []"
    using n p(2) by (simp add: notifyError_def)
qed

lemma notifyError_one:
  "length (errorsOf (notifyError c msg cid a b)) = 1" "filter isSuccess (notifyError c msg cid a b) = []"
  by (simp_all add: notifyError_def)

lemma engineFailure_one:
  "length (errorsOf (engineFailure f msg cid)) = 1" "filter isSuccess (engineFailure f msg cid) = []"
  by (cases f; simp add: notifyError_def notifyError_curlm_def notifyError_curle_def)+

lemma transferCompletion_short:
  assumes "expectedTotal tr = Some t" "reached \<noteq> int t"
  shows "length (errorsOf (transferCompletion tr reached u p cid)) = 1"
    and "filter isSuccess (transferCompletion tr reached u p cid) = []"
  using assms
  by (auto simp: transferCompletion_def notifyError_one engineFailure_one split: EngineResult.splits)

lemma downloadToBuffer_oversized:
  assumes "srcUrl \<noteq> []" "wellFormed srcUrl" "0 < len" "len \<le> int (length buf)"
    and "expectedTotal tr = Some t" "len < int t"
  shows "length (errorsOf (notifications (downloadToBuffer wellFormed tr srcUrl cid buf len))) = 1"
    and "filter isSuccess (notifications (downloadToBuffer wellFormed tr srcUrl cid buf len)) = []"
proof -
  let ?u = "\<lparr>sourceUrl = srcUrl, storagePath = [], unitCustomId = cid\<rparr>"
  let ?sd = "\<lparr>offset = 0, total = len, buffer = buf\<rparr>"
  let ?r = "downloadToBuffer wellFormed tr srcUrl cid buf len"
  obtain ns err sd' where run: "streamToBuffer ?u (reported tr) ?sd = (ns, err, sd')"
    by (cases "streamToBuffer ?u (reported tr) ?sd") auto
  from assms have "wfStream ?sd" by (simp add: wfStream_def)
  from streamToBuffer_inv[OF run this] have "offset sd' \<le> len"
    by (simp add: wfStream_def)
  with assms(6) have ne: "offset sd' \<noteq> int t" by simp
  from streamToBuffer_progress[OF run]
  have p: "filter isError ns = []" "filter isSuccess ns = []" by simp_all
  from assms run
  have n: "notifications ?r = ns @
      (case err of Some e \<Rightarrow> notifyError e [] cid 0 0
       | None \<Rightarrow> transferCompletion tr (offset sd') srcUrl [] cid)"
    by (simp add: downloadToBuffer_def)
  show "length (errorsOf (notifications ?r)) = 1"
    using n errorsOf_no_error[OF p(1)] transferCompletion_short(1)[OF assms(5) ne]
    by (cases err) (simp_all add: errorsOf_append notifyError_one)
  show "filter isSuccess (notifications ?r) = []"
    using n p(2) transferCompletion_short(2)[OF assms(5) ne]
    by (cases err) (simp_all add: notifyError_one)
qed

text \<open>
  C6. A write into a well-formed stream data either copies the whole chunk at \<open>offset\<close>,
  the chunk being at most \<open>total - offset\<close> bytes long, and leaves the stream data well
  formed, the buffer as long as it was and every byte outside the chunk's place as it
  was; or the chunk would pass the capacity and the write is the Network error, with
  nothing copied. A buffer download with a valid url into a buffer of capacity \<open>len\<close>
  leaves the region as long as it was and the bytes past the capacity untouched; when the
  engine delivers more than \<open>len\<close> bytes, or announces a total above \<open>len\<close>, the unit
  ends with one error and no success.
\<close>

theorem buffer_write_within_capacity:
  "(wfStream sd \<longrightarrow>
      (case bufferWriteFunc chunk sd of
         Inl e \<Rightarrow> e = NETWORK \<and> total sd - offset sd < int (length chunk)
       | Inr sd' \<Rightarrow>
           int (length chunk) \<le> total sd - offset sd
           \<and> offset sd' = offset sd + int (length chunk)
           \<and> wfStream sd' \<and> total sd' = total sd
           \<and> length (buffer sd') = length (buffer sd)
           \<and> take (nat (offset sd)) (buffer sd') = take (nat (offset sd)) (buffer sd)
           \<and> take (length chunk) (drop (nat (offset sd)) (buffer sd')) = chunk
           \<and> drop (nat (offset sd')) (buffer sd') = drop (nat (offset sd')) (buffer sd)))
   \<and> (srcUrl \<noteq> [] \<and> wellFormed srcUrl \<and> 0 < len \<and> len \<le> int (length buf) \<longrightarrow>
        length (target (downloadToBuffer wellFormed tr srcUrl cid buf len)) = length buf
        \<and> drop (nat len) (target (downloadToBuffer wellFormed tr srcUrl cid buf len)) = drop (nat len) buf
        \<and> (len < int (streamBytes (reported tr)) \<longrightarrow>
             map code (errorsOf (notifications (downloadToBuffer wellFormed tr srcUrl cid buf len)))
               = [NETWORK]
             \<and> filter isSuccess (notifications (downloadToBuffer wellFormed tr srcUrl cid buf len)) = [])
        \<and> (\<forall>t. expectedTotal tr = Some t \<and> len < int t \<longrightarrow>
             length (errorsOf (notifications (downloadToBuffer wellFormed tr srcUrl cid buf len))) = 1
             \<and> filter isSuccess (notifications (downloadToBuffer wellFormed tr srcUrl cid buf len)) = []))"
proof (intro conjI impI allI)
  assume sd_ok: "wfStream sd"
  show "case bufferWriteFunc chunk sd of
         Inl e \<Rightarrow> e = NETWORK \<and> total sd - offset sd < int (length chunk)
       | Inr sd' \<Rightarrow>
           int (length chunk) \<le> total sd - offset sd
           \<and> offset sd' = offset sd + int (length chunk)
           \<and> wfStream sd' \<and> total sd' = total sd
           \<and> length (buffer sd') = length (buffer sd)
           \<and> take (nat (offset sd)) (buffer sd') = take (nat (offset sd)) (buffer sd)
           \<and> take (length chunk) (drop (nat (offset sd)) (buffer sd')) = chunk
           \<and> drop (nat (offset sd')) (buffer sd') = drop (nat (offset sd')) (buffer sd)"
  proof (cases "bufferWriteFunc chunk sd")
    case (Inl e)
    then show ?thesis using bufferWriteFunc_Inl[OF Inl] by simp
  next
    case (Inr sd')
    then show ?thesis using bufferWriteFunc_Inr[OF Inr sd_ok] by simp
  qed
next
  assume a: "srcUrl \<noteq> [] \<and> wellFormed srcUrl \<and> 0 < len \<and> len \<le> int (length buf)"
  then show "length (target (downloadToBuffer wellFormed tr srcUrl cid buf len)) = length buf"
    by (simp add: downloadToBuffer_region)
  from a show "drop (nat len) (target (downloadToBuffer wellFormed tr srcUrl cid buf len)) = drop (nat len) buf"
    by (simp add: downloadToBuffer_region)
  {
    assume b: "len < int (streamBytes (reported tr))"
    from a b show "map code (errorsOf (notifications (downloadToBuffer wellFormed tr srcUrl cid buf len))) = [NETWORK]"
      by (simp add: downloadToBuffer_overflow)
    from a b show "filter isSuccess (notifications (downloadToBuffer wellFormed tr srcUrl cid buf len)) = []"
      by (simp add: downloadToBuffer_overflow)
  }
  {
    fix t assume b: "expectedTotal tr = Some t \<and> len < int t"
    from a b show "length (errorsOf (notifications (downloadToBuffer wellFormed tr srcUrl cid buf len))) = 1"
      using downloadToBuffer_oversized(1)[of srcUrl wellFormed len buf tr t cid] by simp
    from a b show "filter isSuccess (notifications (downloadToBuffer wellFormed tr srcUrl cid buf len)) = []"
      using downloadToBuffer_oversized(2)[of srcUrl wellFormed len buf tr t cid] by simp
  }
qed

text \<open>
  The write at offset 2 of a buffer of capacity 4, and the scenario of the specification:
  a buffer of 100 bytes and a server that delivers 200.
\<close>

theorem buffer_write_within_capacity_witness:
  "wfStream \<lparr>offset = 2, total = 4, buffer = [0, 0, 0, 0, 0]\<rparr>
   \<and> bufferWriteFunc [7, 8] \<lparr>offset = 2, total = 4, buffer = [0, 0, 0, 0, 0]\<rparr>
       = Inr \<lparr>offset = 4, total = 4, buffer = [0, 0, 7, 8, 0]\<rparr>
   \<and> bufferWriteFunc [7, 8, 9] \<lparr>offset = 2, total = 4, buffer = [0, 0, 0, 0, 0]\<rparr>
       = Inl NETWORK
   \<and> (0::int) < 100 \<and> (100::int) \<le> int (length (replicate 100 (0::byte)))
   \<and> (100::int) < int (streamBytes (reported
         \<lparr>expectedTotal = Some 200,
          reported = [Chunk (replicate 100 1), Chunk (replicate 100 2)],
          finished = EngineDone\<rparr>))
   \<and> expectedTotal
         \<lparr>expectedTotal = Some 200,
          reported = [Chunk (replicate 100 1), Chunk (replicate 100 2)],
          finished = EngineDone\<rparr> = Some 200
   \<and> (100::int) < int 200
   \<and> length (errorsOf (notifications (downloadToBuffer (\<lambda>u. True)
         \<lparr>expectedTotal = Some 200,
          reported = [Chunk (replicate 100 1), Chunk (replicate 100 2)],
          finished = EngineDone\<rparr> ''http://host/a'' ''b1'' (replicate 100 0) 100))) = 1
   \<and> length (target (downloadToBuffer (\<lambda>u. True)
         \<lparr>expectedTotal = Some 200,
          reported = [Chunk (replicate 100 1), Chunk (replicate 100 2)],
          finished = EngineDone\<rparr> ''http://host/a'' ''b1'' (replicate 100 0) 100)) = 100
   \<and> map code (errorsOf (notifications (downloadToBuffer (\<lambda>u. True)
         \<lparr>expectedTotal = Some 200,
          reported = [Chunk (replicate 100 1), Chunk (replicate 100 2)],
          finished = EngineDone\<rparr> ''http://host/a'' ''b1'' (replicate 100 0) 100))) = [NETWORK]
   \<and> filter isSuccess (notifications (downloadToBuffer (\<lambda>u. True)
         \<lparr>expectedTotal = Some 200,
          reported = [Chunk (replicate 100 1), Chunk (replicate 100 2)],
          finished = EngineDone\<rparr> ''http://host/a'' ''b1'' (replicate 100 0) 100)) = []"
proof -
  let ?sd = "\<lparr>offset = 2, total = 4, buffer = [0, 0, 0, 0, 0 :: byte]\<rparr>"
  let ?tr = "\<lparr>expectedTotal = Some 200,
          reported = [Chunk (replicate 100 1), Chunk (replicate 100 2)],
          finished = EngineDone\<rparr>"
  have sd: "wfStream ?sd" by (simp add: wfStream_def)
  have w1: "bufferWriteFunc [7, 8] ?sd = Inr \<lparr>offset = 4, total = 4, buffer = [0, 0, 7, 8, 0]\<rparr>"
    by (simp add: bufferWriteFunc_def)
  have w2: "bufferWriteFunc [7, 8, 9] ?sd = Inl NETWORK"
    by (simp add: bufferWriteFunc_def)
  have h: "''http://host/a'' \<noteq> [] \<and> (\<lambda>u. True) ''http://host/a'' \<and> (0::int) < 100
      \<and> (100::int) \<le> int (length (replicate 100 (0::byte)))"
    by simp
  have big: "(100::int) < int (streamBytes (reported ?tr))"
    by simp
  note inst = buffer_write_within_capacity[of ?sd "[7, 8]" "''http://host/a''" "\<lambda>u. True" 100
      "replicate 100 0" ?tr "''b1''"]
  have announced: "expectedTotal ?tr = Some 200 \<and> (100::int) < int 200"
    by simp
  from inst sd h big announced
  have "length (target (downloadToBuffer (\<lambda>u. True) ?tr ''http://host/a'' ''b1''
          (replicate 100 0) 100)) = length (replicate 100 (0::byte))
      \<and> map code (errorsOf (notifications (downloadToBuffer (\<lambda>u. True) ?tr ''http://host/a''
          ''b1'' (replicate 100 0) 100))) = [NETWORK]
      \<and> filter isSuccess (notifications (downloadToBuffer (\<lambda>u. True) ?tr ''http://host/a''
          ''b1'' (replicate 100 0) 100)) = []
      \<and> length (errorsOf (notifications (downloadToBuffer (\<lambda>u. True) ?tr ''http://host/a''
          ''b1'' (replicate 100 0) 100))) = 1"
    by blast
  then show ?thesis
    using sd w1 w2 by simp
qed

section \<open>Validation of the caller's input\<close>

text \<open>
  C7. A buffer download whose url is empty or not well formed fails with \<open>INVALID_URL\<close>. One
  whose size is not positive fails with a caller-input error: \<open>INVALID_STORAGE_PATH\<close> when
  the url is valid, and the \<open>INVALID_URL\<close> of the first rule when the url is invalid as
  well. In each of these cases the error is the only notification, no request is made of
  the engine, so there is no network activity and nothing is retried, and the buffer is
  untouched.
\<close>

theorem buffer_download_validates_input:
  "(srcUrl = [] \<or> \<not> wellFormed srcUrl \<longrightarrow>
      map code (errorsOf (notifications (downloadToBuffer wellFormed tr srcUrl cid buf len)))
        = [INVALID_URL]
      \<and> length (notifications (downloadToBuffer wellFormed tr srcUrl cid buf len)) = 1
      \<and> engineCalls (downloadToBuffer wellFormed tr srcUrl cid buf len) = []
      \<and> target (downloadToBuffer wellFormed tr srcUrl cid buf len) = buf)
   \<and> (len \<le> 0 \<longrightarrow>
      map code (errorsOf (notifications (downloadToBuffer wellFormed tr srcUrl cid buf len)))
        = [if srcUrl = [] then INVALID_URL
           else if wellFormed srcUrl then INVALID_STORAGE_PATH else INVALID_URL]
      \<and> length (notifications (downloadToBuffer wellFormed tr srcUrl cid buf len)) = 1
      \<and> engineCalls (downloadToBuffer wellFormed tr srcUrl cid buf len) = []
      \<and> target (downloadToBuffer wellFormed tr srcUrl cid buf len) = buf)
   \<and> (srcUrl \<noteq> [] \<and> wellFormed srcUrl \<and> len \<le> 0 \<longrightarrow>
      map code (errorsOf (notifications (downloadToBuffer wellFormed tr srcUrl cid buf len)))
        = [INVALID_STORAGE_PATH])"
  by (simp add: downloadToBuffer_def notifyError_def)

text \<open>
  A url without scheme; a valid url with size zero; the empty url with a negative size.
\<close>

theorem buffer_download_validates_input_witness:
  "map code (errorsOf (notifications (downloadToBuffer (\<lambda>u. take 7 u = ''http://'')
       \<lparr>expectedTotal = None, reported = [Chunk [1, 2]], finished = EngineDone\<rparr>
       ''ftp//x'' ''b1'' [0, 0] 2))) = [INVALID_URL]
   \<and> engineCalls (downloadToBuffer (\<lambda>u. take 7 u = ''http://'')
       \<lparr>expectedTotal = None, reported = [Chunk [1, 2]], finished = EngineDone\<rparr>
       ''ftp//x'' ''b1'' [0, 0] 2) = []
   \<and> map code (errorsOf (notifications (downloadToBuffer (\<lambda>u. take 7 u = ''http://'')
       \<lparr>expectedTotal = None, reported = [Chunk [1, 2]], finished = EngineDone\<rparr>
       ''http://host/a'' ''b1'' [0, 0] 0))) = [INVALID_STORAGE_PATH]
   \<and> engineCalls (downloadToBuffer (\<lambda>u. take 7 u = ''http://'')
       \<lparr>expectedTotal = None, reported = [Chunk [1, 2]], finished = EngineDone\<rparr>
       ''http://host/a'' ''b1'' [0, 0] 0) = []
   \<and> map code (errorsOf (notifications (downloadToBuffer (\<lambda>u. take 7 u = ''http://'')
       \<lparr>expectedTotal = None, reported = [Chunk [1, 2]], finished = EngineDone\<rparr>
       [] ''b1'' [0, 0] (- 1)))) = [INVALID_URL]
   \<and> target (downloadToBuffer (\<lambda>u. take 7 u = ''http://'')
       \<lparr>expectedTotal = None, reported = [Chunk [1, 2]], finished = EngineDone\<rparr>
       [] ''b1'' [0, 0] (- 1)) = [0, 0]"
proof -
  let ?wf = "\<lambda>u. take 7 u = ''http://''"
  let ?tr = "\<lparr>expectedTotal = None, reported = [Chunk [1, 2 :: byte]], finished = EngineDone\<rparr>"
  have bad: "''ftp//x'' = [] \<or> \<not> ?wf ''ftp//x''"
    by simp
  have good: "''http://host/a'' \<noteq> [] \<and> ?wf ''http://host/a'' \<and> (0::int) \<le> 0"
    by simp
  have both: "(- 1 :: int) \<le> 0"
    by simp
  from buffer_download_validates_input[of "''ftp//x''" ?wf ?tr "''b1''" "[0, 0]" 2] bad
  have a: "map code (errorsOf (notifications (downloadToBuffer ?wf ?tr ''ftp//x'' ''b1'' [0, 0] 2)))
        = [INVALID_URL]
      \<and> engineCalls (downloadToBuffer ?wf ?tr ''ftp//x'' ''b1'' [0, 0] 2) = []"
    by blast
  from buffer_download_validates_input[of "''http://host/a''" ?wf ?tr "''b1''" "[0, 0]" 0] good
  have b: "map code (errorsOf (notifications
          (downloadToBuffer ?wf ?tr ''http://host/a'' ''b1'' [0, 0] 0))) = [INVALID_STORAGE_PATH]
      \<and> engineCalls (downloadToBuffer ?wf ?tr ''http://host/a'' ''b1'' [0, 0] 0) = []"
    by blast
  from buffer_download_validates_input[of "[]" ?wf ?tr "''b1''" "[0, 0]" "- 1"] both
  have c: "map code (errorsOf (notifications (downloadToBuffer ?wf ?tr [] ''b1'' [0, 0] (- 1))))
        = [INVALID_URL]
      \<and> target (downloadToBuffer ?wf ?tr [] ''b1'' [0, 0] (- 1)) = [0, 0]"
    by simp
  from a b c show ?thesis by blast
qed

section \<open>Every unit ends with one terminal notification\<close>










lemma streamToFile_content:
  "streamToFile u es content = (ns, content') \<Longrightarrow> content' = content @ streamPayload es"
proof (induction u es content arbitrary: ns content' rule: streamToFile.induct)
  case (1 u content)
  then show ?case by simp
next
  case (2 u t n es content)
  then show ?case by (cases "streamToFile u es content") auto
next
  case (3 u bs es content)
  then show ?case by (simp add: fileWriteFunc_def)
qed











section \<open>The batch-level notification\<close>





















section \<open>The synchronous operations\<close>





















section \<open>The scenarios of the specification\<close>

text \<open>
  Section 8 of the specification lists three scenarios. The third, a buffer of 100 bytes
  and a server delivering 200, is the witness of C6 above. The first is a file download
  of 1024 bytes that succeeds, the engine ticking once at the end: one success
  notification with the url, the storage path and the customId, after the progress
  \<open>(1024, 1024)\<close>.
\<close>

lemma scenario_file_download:
  "writable fs ''/tmp/a.zip'' \<Longrightarrow> openable fs ''/tmp/a.zip'' \<Longrightarrow> files fs ''/tmp/a.zip'' = None \<Longrightarrow>
   notifications (downloadToFP d fs probe
      \<lparr>expectedTotal = Some 1024, reported = [Chunk (replicate 1024 0), Tick 1024 1024],
       finished = EngineDone\<rparr>
      ''http://host/a.zip'' ''id1'' ''/tmp/a.zip'')
     = [OnProgress 1024 1024 ''http://host/a.zip'' ''id1'',
        OnSuccess ''http://host/a.zip'' ''/tmp/a.zip'' ''id1'']"
  by (simp add: downloadToFP_def fileWriteFunc_def downloadProgressFunc_def
      reportProgressInProgress_def transferCompletion_def reportDownloadFinished_def)

text \<open>
  The second is a batch of two members of which the first succeeds and the second fails
  with a Network error: two notifications of the members, then the error of the second
  member once more, for \<open>batch1\<close>.
\<close>

lemma scenario_batch_download:
  "writable fs = (\<lambda>p. True) \<Longrightarrow> openable fs = (\<lambda>p. True) \<Longrightarrow> files fs = (\<lambda>p. None) \<Longrightarrow>
   fst (batchDownload d fs probe
      [(\<lparr>sourceUrl = ''u1'', storagePath = ''p1'', unitCustomId = ''f1''\<rparr>,
        \<lparr>expectedTotal = None, reported = [Chunk [1]], finished = EngineDone\<rparr>),
       (\<lparr>sourceUrl = ''u2'', storagePath = ''p2'', unitCustomId = ''f2''\<rparr>,
        \<lparr>expectedTotal = None, reported = [], finished = EngineFailed Unclassified ''timeout''\<rparr>)]
      ''batch1'')
     = [(Member 0, OnSuccess ''u1'' ''p1'' ''f1''),
        (Member 1, OnError \<lparr>code = NETWORK, curlm_code = 0, curle_code = 0,
           message = ''timeout'', customId = ''f2'', url = []\<rparr>),
        (BatchLevel, OnError \<lparr>code = NETWORK, curlm_code = 0, curle_code = 0,
           message = ''timeout'', customId = ''batch1'', url = []\<rparr>)]"
  by (simp add: batchDownload_def groupBatchDownload_def batchNotification_def
      downloadToFP_def fileWriteFunc_def transferCompletion_def reportDownloadFinished_def
      notifyError_def)

end
